theory Spec2Isabelle
  imports Complex_Main "HOL-Library.AList" "HOL-Library.Sublist"
begin

section \<open>The language-service launcher of the Naninovel VS Code extension\<close>

text \<open>
  The development embeds \<^verbatim>\<open>src/language/client.ts\<close>. The file is an activation
  shim: it asks the host for a .NET runtime, checks that the language server binary is
  on disk, builds and starts a language client, and relays telemetry and errors.

  Everything the file calls lives outside it (VS Code, Node, the language-client
  library, the telemetry library). Those calls are modelled in two parts:
  \<^item> what a call answers is read from a record \<open>host\<close> of oracles, so that a theorem
    holds for every answer the host can give;
  \<^item> that a call was made is appended to the \<open>trace\<close> of a record \<open>world\<close>, which
    also holds the objects the file mutates (\<^verbatim>\<open>context.subscriptions\<close> and the
    client).
  A \<^verbatim>\<open>throw\<close> of the file and a rejection of an awaited host promise are values of
  the type \<open>exn\<close>; functions that can throw return \<open>exn + 'a\<close>. The two awaited calls
  (\<^verbatim>\<open>executeCommand\<close>, \<^verbatim>\<open>client.onReady\<close>) can be rejected; the synchronous calls
  (the logger, \<^verbatim>\<open>existsSync\<close>, \<^verbatim>\<open>path.resolve\<close>, the constructor and the methods of
  the client) are taken to return.
\<close>

subsection \<open>Values\<close>

text \<open>
  What a host call fails with is opaque to the file; it is kept apart from the errors
  the file builds itself with \<^verbatim>\<open>new Error(...)\<close>.
\<close>

datatype host_failure = HostFailure string

datatype exn =
    Error string
  | Rejected host_failure

text \<open>The command argument and the result of \<^verbatim>\<open>dotnet.acquire\<close>.\<close>

record acquire_request =
  version :: string
  requestingExtensionId :: string

record acquire_result =
  dotnetPath :: string

text \<open>\<^verbatim>\<open>lsp.Executable\<close>, \<^verbatim>\<open>lsp.ServerOptions\<close>, \<^verbatim>\<open>lsp.LanguageClientOptions\<close>.\<close>

record executable =
  command :: string
  args :: "string list"

record server_options =
  run :: executable
  debug :: executable

record document_filter =
  language :: string

datatype file_system_watcher = FileSystemWatcher string

record synchronize_options =
  fileEvents :: file_system_watcher

datatype output_channel = OutputChannel string

text \<open>
  The object literal assigned to \<^verbatim>\<open>client.clientOptions.errorHandler\<close> closes over
  \<^verbatim>\<open>startTime\<close> and \<^verbatim>\<open>defaultErrorHandler\<close>; the closure is the record of the two
  captured values, and its two methods are the functions \<open>errorHandler_error\<close> and
  \<open>errorHandler_closed\<close> below. The default error handler is an object of the
  language-client library with a state of its own, of type \<open>'d\<close>.
\<close>

record 'd error_handler =
  startTime :: int
  defaultErrorHandler :: 'd

record 'd client_options =
  documentSelector :: "document_filter list"
  progressOnInitialization :: bool
  outputChannel :: output_channel
  synchronize :: synchronize_options
  errorHandler :: "'d error_handler option"

text \<open>
  The arrow function passed to \<^verbatim>\<open>client.onTelemetry\<close> captures nothing; its body is
  the function \<open>telemetryListener\<close> below.
\<close>

datatype telemetry_listener = TelemetryListener

record 'd language_client =
  clientId :: string
  clientName :: string
  serverOptions :: server_options
  clientOptions :: "'d client_options"
  telemetryListeners :: "telemetry_listener list"

datatype disposable = ClientDisposable | OtherDisposable string

text \<open>\<^verbatim>\<open>IActionContext\<close> of the telemetry library, as far as the file touches it.\<close>

record telemetry_context =
  properties :: "(string \<times> string option) list"
  measurements :: "(string \<times> real) list"

record error_handling_context =
  suppressDisplay :: bool
  rethrow :: bool

record action_context =
  telemetry :: telemetry_context
  errorHandling :: error_handling_context

text \<open>What the language client hands to the listeners and to the error handler.\<close>

record telemetry_data =
  eventName :: string
  eventProperties :: "(string \<times> string option) list"

record message =
  jsonrpc :: string

datatype error_action = Continue | Shutdown

datatype close_action = DoNotRestart | Restart

subsection \<open>The world and the host\<close>

text \<open>
  The calls that leave a mark on the world, in the order of the trace. The logger is
  \<^verbatim>\<open>getLogger()\<close> of \<^verbatim>\<open>../utils/logger\<close>; of a call to it the trace keeps the
  level and the message.
\<close>

datatype event =
    LoggerInfo string
  | LoggerDebug string
  | ExecuteCommand string acquire_request
  | ExistsSync string
  | CreateFileSystemWatcher string
  | NewLanguageClient
  | CreateDefaultErrorHandler
  | OnTelemetry
  | SetErrorHandler
  | ClientStart
  | SubscriptionsPush disposable
  | ClientOnReady
  | CallWithTelemetry string action_context "exn option"

record 'd world =
  trace :: "event list"
  subscriptions :: "disposable list"
  client :: "'d language_client option"
  now :: int

text \<open>
  \<open>executeCommand\<close> is the outcome of the awaited \<^verbatim>\<open>vscode.commands.executeCommand\<close>:
  a rejection, \<^verbatim>\<open>undefined\<close>, or a result object. \<open>onReady\<close> is the outcome of the
  awaited \<^verbatim>\<open>client.onReady()\<close>. \<open>path_resolve\<close> is \<^verbatim>\<open>path.resolve\<close> of Node, which
  reads the working directory of the process. \<open>initTelemetry\<close> is the telemetry part
  of the context the telemetry library starts every action with. \<open>default_error\<close> and \<open>default_closed\<close> are
  the two methods of the library's default error handler, \<open>createDefaultErrorHandler\<close>
  the state of a fresh one.
\<close>

record 'd host =
  executeCommand :: "string \<Rightarrow> acquire_request \<Rightarrow> host_failure + acquire_result option"
  NANINOVEL_LANGUAGE_SERVER_PATH :: "string option"
  existsSync :: "string \<Rightarrow> bool"
  path_resolve :: "string \<Rightarrow> string"
  onReady :: "host_failure option"
  parseError_message :: "host_failure \<Rightarrow> string"
  initTelemetry :: telemetry_context
  createDefaultErrorHandler :: 'd
  default_error :: "host_failure \<Rightarrow> message option \<Rightarrow> nat option \<Rightarrow> 'd \<Rightarrow> error_action \<times> 'd"
  default_closed :: "'d \<Rightarrow> close_action \<times> 'd"

text \<open>
  Of \<^verbatim>\<open>vscode.ExtensionContext\<close> the file reads \<^verbatim>\<open>asAbsolutePath\<close>, which resolves a
  path relative to the directory the extension is installed in; the array
  \<^verbatim>\<open>context.subscriptions\<close>, which the file mutates, is the field \<open>subscriptions\<close> of
  the world.
\<close>

record extension_context =
  asAbsolutePath :: "string \<Rightarrow> string"

definition emit :: "event \<Rightarrow> 'd world \<Rightarrow> 'd world" where
  "emit e w = w\<lparr>trace := trace w @ [e]\<rparr>"

subsection \<open>Constants of the file\<close>

definition languageId :: string where
  "languageId = ''naniscript''"

definition dotnetRuntimeVersion :: string where
  "dotnetRuntimeVersion = ''3.1''"

definition extensionId :: string where
  "extensionId = ''Elringus.naninovel''"

definition packagedServerPath :: string where
  "packagedServerPath = ''server/NaninovelLanguageServer.dll''"

definition quote :: string where
  "quote = [CHR 0x27]"

subsection \<open>Locating the runtime and the server\<close>

definition ensureDotnetRuntimeInstalled ::
  "'d host \<Rightarrow> 'd world \<Rightarrow> (exn + string) \<times> 'd world" where
  "ensureDotnetRuntimeInstalled h w =
     (let request = \<lparr>version = dotnetRuntimeVersion, requestingExtensionId = extensionId\<rparr>;
          w1 = emit (ExecuteCommand ''dotnet.acquire'' request) w
      in case executeCommand h ''dotnet.acquire'' request of
           Inl failure \<Rightarrow> (Inl (Rejected failure), w1)
         | Inr None \<Rightarrow>
             (Inl (Error (''Failed to install .NET runtime v'' @ dotnetRuntimeVersion @ ''.'')), w1)
         | Inr (Some result) \<Rightarrow> (Inr (path_resolve h (dotnetPath result)), w1))"

text \<open>
  \<^verbatim>\<open>a ?? b\<close> takes \<^verbatim>\<open>b\<close> only when \<^verbatim>\<open>a\<close> is \<^verbatim>\<open>undefined\<close> or \<^verbatim>\<open>null\<close>: a variable
  that is set, even to the empty string, is \<open>Some\<close> of its value.
\<close>

definition ensureLanguageServerExists ::
  "'d host \<Rightarrow> extension_context \<Rightarrow> 'd world \<Rightarrow> (exn + string) \<times> 'd world" where
  "ensureLanguageServerExists h context w =
     (let languageServerPath =
            (case NANINOVEL_LANGUAGE_SERVER_PATH h of
               Some local \<Rightarrow> local
             | None \<Rightarrow> asAbsolutePath context packagedServerPath);
          w1 = emit (ExistsSync languageServerPath) w
      in if \<not> existsSync h languageServerPath
         then (Inl (Error (''Language server does not exist at '' @ quote @ languageServerPath
                            @ quote @ ''.'')), w1)
         else (Inr (path_resolve h languageServerPath), w1))"

subsection \<open>Telemetry\<close>

text \<open>
  \<^verbatim>\<open>callWithTelemetryAndErrorHandlingSync\<close> belongs to the telemetry library. The file
  relies on this much of its contract: the callback runs once, on a fresh context whose
  \<^verbatim>\<open>errorHandling.suppressDisplay\<close> and \<^verbatim>\<open>errorHandling.rethrow\<close> are off, as the
  library documents their defaults; what the callback throws is caught, and thrown again
  only when \<^verbatim>\<open>errorHandling.rethrow\<close> is set by then; the action is reported under its
  id. A callback is a function from the context it receives to the context as it left
  it and what it threw, if anything.
\<close>

definition initContext :: "'d host \<Rightarrow> action_context" where
  "initContext h =
     \<lparr>telemetry = initTelemetry h,
      errorHandling = \<lparr>suppressDisplay = False, rethrow = False\<rparr>\<rparr>"

definition callWithTelemetryAndErrorHandlingSync ::
  "'d host \<Rightarrow> string \<Rightarrow> (action_context \<Rightarrow> action_context \<times> exn option) \<Rightarrow> 'd world
   \<Rightarrow> exn option \<times> 'd world" where
  "callWithTelemetryAndErrorHandlingSync h callbackId callback w =
     (case callback (initContext h) of
        (context, thrown) \<Rightarrow>
          (if rethrow (errorHandling context) then thrown else None,
           emit (CallWithTelemetry callbackId context thrown) w))"

text \<open>
  The listener registered with \<^verbatim>\<open>client.onTelemetry\<close>. The field \<^verbatim>\<open>properties\<close> of
  the event is \<open>eventProperties\<close> here, \<open>properties\<close> being the field of the action
  context.
\<close>

definition telemetryListener ::
  "'d host \<Rightarrow> telemetry_data \<Rightarrow> 'd world \<Rightarrow> exn option \<times> 'd world" where
  "telemetryListener h telemetryData w =
     callWithTelemetryAndErrorHandlingSync h (eventName telemetryData)
       (\<lambda>telemetryActionContext.
          (telemetryActionContext
             \<lparr>errorHandling := (errorHandling telemetryActionContext)\<lparr>suppressDisplay := True\<rparr>,
              telemetry := (telemetry telemetryActionContext)
                             \<lparr>properties := eventProperties telemetryData\<rparr>\<rparr>,
           None))
       w"

text \<open>
  The two methods of the installed error handler. \<^verbatim>\<open>Date.now()\<close> is the field \<open>now\<close>
  of the world at the time of the call. Each method returns the action, or what escaped
  from the telemetry call, together with the handler (the default handler inside it may
  have changed state) and the world.
\<close>

definition errorHandler_error ::
  "'d host \<Rightarrow> 'd error_handler \<Rightarrow> host_failure \<Rightarrow> message option \<Rightarrow> nat option \<Rightarrow> 'd world
   \<Rightarrow> (exn + error_action) \<times> 'd error_handler \<times> 'd world" where
  "errorHandler_error h self error message count w =
     (case callWithTelemetryAndErrorHandlingSync h ''naniscript.lsp-error''
             (\<lambda>context.
                (context\<lparr>telemetry := (telemetry context)
                   \<lparr>properties :=
                      AList.update ''jsonrpcMessage''
                        (Some (case message of Some m \<Rightarrow> jsonrpc m | None \<Rightarrow> []))
                        (properties (telemetry context)),
                    measurements :=
                      AList.update ''secondsSinceStart''
                        (real_of_int (now w - startTime self) / 1000)
                        (measurements (telemetry context))\<rparr>\<rparr>,
                 Some (Error (''Error: '' @ parseError_message h error))))
             w of
        (Some e, w1) \<Rightarrow> (Inl e, self, w1)
      | (None, w1) \<Rightarrow>
          (case default_error h error message count (defaultErrorHandler self) of
             (action, d) \<Rightarrow> (Inr action, self\<lparr>defaultErrorHandler := d\<rparr>, w1)))"

definition errorHandler_closed ::
  "'d host \<Rightarrow> 'd error_handler \<Rightarrow> 'd world
   \<Rightarrow> (exn + close_action) \<times> 'd error_handler \<times> 'd world" where
  "errorHandler_closed h self w =
     (case callWithTelemetryAndErrorHandlingSync h ''naniscript.lsp-error''
             (\<lambda>context.
                (context\<lparr>telemetry := (telemetry context)
                   \<lparr>measurements :=
                      AList.update ''secondsSinceStart''
                        (real_of_int (now w - startTime self) / 1000)
                        (measurements (telemetry context))\<rparr>\<rparr>,
                 Some (Error ''Connection closed'')))
             w of
        (Some e, w1) \<Rightarrow> (Inl e, self, w1)
      | (None, w1) \<Rightarrow>
          (case default_closed h (defaultErrorHandler self) of
             (action, d) \<Rightarrow> (Inr action, self\<lparr>defaultErrorHandler := d\<rparr>, w1)))"

text \<open>
  \<^verbatim>\<open>configureTelemetry(client)\<close> mutates the client it is given; the client is the one
  in the world.
\<close>

definition configureTelemetry :: "'d host \<Rightarrow> 'd world \<Rightarrow> 'd world" where
  "configureTelemetry h w =
     (let start = now w;
          w1 = emit CreateDefaultErrorHandler w;
          handler = createDefaultErrorHandler h;
          w2 = emit OnTelemetry
                 (w1\<lparr>client :=
                       map_option
                         (\<lambda>c. c\<lparr>telemetryListeners := telemetryListeners c @ [TelemetryListener]\<rparr>)
                         (client w1)\<rparr>)
      in emit SetErrorHandler
           (w2\<lparr>client :=
                 map_option
                   (\<lambda>c. c\<lparr>clientOptions := (clientOptions c)
                            \<lparr>errorHandler :=
                               Some \<lparr>startTime = start, defaultErrorHandler = handler\<rparr>\<rparr>\<rparr>)
                   (client w2)\<rparr>))"

subsection \<open>Launching\<close>

definition launchLanguageService ::
  "'d host \<Rightarrow> extension_context \<Rightarrow> output_channel \<Rightarrow> 'd world \<Rightarrow> (exn + unit) \<times> 'd world" where
  "launchLanguageService h context channel w =
     (let w1 = emit (LoggerInfo ''Launching Naninovel language service...'') w
      in case ensureDotnetRuntimeInstalled h w1 of
           (Inl e, w2) \<Rightarrow> (Inl e, w2)
         | (Inr dotnetCommandPath, w2) \<Rightarrow>
             (let w3 = emit (LoggerDebug (''Found dotnet command at '' @ quote
                                          @ dotnetCommandPath @ quote @ ''.'')) w2
              in case ensureLanguageServerExists h context w3 of
                   (Inl e, w4) \<Rightarrow> (Inl e, w4)
                 | (Inr languageServerPath, w4) \<Rightarrow>
                     (let w5 = emit (LoggerDebug (''Found language server at '' @ quote
                                                  @ languageServerPath @ quote @ ''.'')) w4;
                          serverExecutable =
                            \<lparr>command = dotnetCommandPath, args = [languageServerPath]\<rparr>;
                          options = \<lparr>run = serverExecutable, debug = serverExecutable\<rparr>;
                          w6 = emit (CreateFileSystemWatcher ''**/*.nani'') w5;
                          w7 = emit NewLanguageClient
                                 (w6\<lparr>client := Some
                                       \<lparr>clientId = languageId,
                                        clientName = ''NaniScript'',
                                        serverOptions = options,
                                        clientOptions =
                                          \<lparr>documentSelector = [\<lparr>language = languageId\<rparr>],
                                           progressOnInitialization = True,
                                           outputChannel = channel,
                                           synchronize =
                                             \<lparr>fileEvents = FileSystemWatcher ''**/*.nani''\<rparr>,
                                           errorHandler = None\<rparr>,
                                        telemetryListeners = []\<rparr>\<rparr>);
                          w8 = configureTelemetry h w7;
                          w9 = emit ClientStart w8;
                          w10 = emit (SubscriptionsPush ClientDisposable)
                                  (w9\<lparr>subscriptions := subscriptions w9 @ [ClientDisposable]\<rparr>);
                          w11 = emit (LoggerInfo ''Naninovel language service started.'') w10;
                          w12 = emit ClientOnReady w11
                      in case onReady h of
                           Some failure \<Rightarrow> (Inl (Rejected failure), w12)
                         | None \<Rightarrow>
                             (Inr (),
                              emit (LoggerInfo ''Naninovel language service ready.'') w12))))"


subsection \<open>Vocabulary of the properties\<close>

text \<open>
  The answer of the host to the one command the file issues, the event of issuing it,
  and the path the file looks for the server at.
\<close>

definition acquireOutcome :: "'d host \<Rightarrow> host_failure + acquire_result option" where
  "acquireOutcome h =
     executeCommand h ''dotnet.acquire''
       \<lparr>version = ''3.1'', requestingExtensionId = ''Elringus.naninovel''\<rparr>"

definition acquireEvent :: event where
  "acquireEvent =
     ExecuteCommand ''dotnet.acquire''
       \<lparr>version = ''3.1'', requestingExtensionId = ''Elringus.naninovel''\<rparr>"

definition chosenServerPath :: "'d host \<Rightarrow> extension_context \<Rightarrow> string" where
  "chosenServerPath h context =
     (case NANINOVEL_LANGUAGE_SERVER_PATH h of
        Some local \<Rightarrow> local
      | None \<Rightarrow> asAbsolutePath context ''server/NaninovelLanguageServer.dll'')"

text \<open>
  The client as a launch leaves it, given the two paths and the time at which
  \<^verbatim>\<open>configureTelemetry\<close> ran.
\<close>

definition constructedClient ::
  "'d host \<Rightarrow> output_channel \<Rightarrow> string \<Rightarrow> string \<Rightarrow> int \<Rightarrow> 'd language_client" where
  "constructedClient h channel dotnetCommandPath languageServerPath start =
     \<lparr>clientId = ''naniscript'',
      clientName = ''NaniScript'',
      serverOptions =
        \<lparr>run = \<lparr>command = dotnetCommandPath, args = [languageServerPath]\<rparr>,
         debug = \<lparr>command = dotnetCommandPath, args = [languageServerPath]\<rparr>\<rparr>,
      clientOptions =
        \<lparr>documentSelector = [\<lparr>language = ''naniscript''\<rparr>],
         progressOnInitialization = True,
         outputChannel = channel,
         synchronize = \<lparr>fileEvents = FileSystemWatcher ''**/*.nani''\<rparr>,
         errorHandler =
           Some \<lparr>startTime = start, defaultErrorHandler = createDefaultErrorHandler h\<rparr>\<rparr>,
      telemetryListeners = [TelemetryListener]\<rparr>"

text \<open>
  The steps of a launch, and the events that are steps: acquiring the runtime, checking
  the server file, constructing the client, starting it, pushing its disposable onto
  \<^verbatim>\<open>context.subscriptions\<close>, awaiting readiness. \<open>steps w w'\<close> are the steps among
  the events a run appended to the trace on its way from \<open>w\<close> to \<open>w'\<close>.
\<close>

datatype step = Acquire | Verify | Construct | Start | Push | AwaitReady

fun step_of :: "event \<Rightarrow> step option" where
  "step_of (ExecuteCommand c r) = Some Acquire"
| "step_of (ExistsSync p) = Some Verify"
| "step_of NewLanguageClient = Some Construct"
| "step_of ClientStart = Some Start"
| "step_of (SubscriptionsPush d) = Some Push"
| "step_of ClientOnReady = Some AwaitReady"
| "step_of e = None"

definition run_events :: "'d world \<Rightarrow> 'd world \<Rightarrow> event list" where
  "run_events w w' = drop (length (trace w)) (trace w')"

definition steps :: "'d world \<Rightarrow> 'd world \<Rightarrow> step list" where
  "steps w w' = List.map_filter step_of (run_events w w')"

text \<open>
  The outcome of a launch: what the launch returned or threw, and the client it
  constructed, as the launch left it, when it constructed one. The runtime path is the
  command of the client's executables, the server path their argument.
\<close>

definition launchOutcome ::
  "'d host \<Rightarrow> extension_context \<Rightarrow> output_channel \<Rightarrow> 'd world
   \<Rightarrow> (exn + unit) \<times> 'd language_client option" where
  "launchOutcome h context channel w =
     (case launchLanguageService h context channel w of
        (result, w') \<Rightarrow>
          (result, if Construct \<in> set (steps w w') then client w' else None))"

subsection \<open>A concrete host\<close>

text \<open>
  A host on which the launch succeeds: the runtime is acquired, no override is set, the
  packaged server is on disk. \<open>resolveIn cwd\<close> resolves a relative path against the
  working directory \<open>cwd\<close>. The default error handler counts the restarts.
\<close>

definition resolveIn :: "string \<Rightarrow> string \<Rightarrow> string" where
  "resolveIn cwd p = (if take 1 p = ''/'' then p else cwd @ ''/'' @ p)"

definition exampleHost :: "nat host" where
  "exampleHost =
     \<lparr>executeCommand =
        (\<lambda>commandId request.
           if commandId = ''dotnet.acquire''
           then Inr (Some \<lparr>dotnetPath = ''/opt/dotnet/dotnet''\<rparr>)
           else Inl (HostFailure ''command not found'')),
      NANINOVEL_LANGUAGE_SERVER_PATH = None,
      existsSync =
        (\<lambda>p. p = ''/ext/server/NaninovelLanguageServer.dll'' \<or> p = ''/dev/server.dll''),
      path_resolve = resolveIn ''/work'',
      onReady = None,
      parseError_message = (\<lambda>failure. case failure of HostFailure text \<Rightarrow> text),
      initTelemetry =
        \<lparr>properties = [(''result'', Some ''Succeeded'')], measurements = [(''duration'', 0)]\<rparr>,
      createDefaultErrorHandler = 0,
      default_error =
        (\<lambda>error message count restarts.
           (case count of
              Some n \<Rightarrow> if n \<le> 3 then Continue else Shutdown
            | None \<Rightarrow> Shutdown,
            restarts)),
      default_closed =
        (\<lambda>restarts. (if restarts < 4 then Restart else DoNotRestart, Suc restarts))\<rparr>"

definition hostWithoutRuntime :: "nat host" where
  "hostWithoutRuntime = exampleHost\<lparr>executeCommand := (\<lambda>commandId request. Inr None)\<rparr>"

definition hostWithOverride :: "string \<Rightarrow> nat host" where
  "hostWithOverride local = exampleHost\<lparr>NANINOVEL_LANGUAGE_SERVER_PATH := Some local\<rparr>"

text \<open>
  A host whose override is the relative path \<^verbatim>\<open>server.dll\<close>, present whatever the
  working directory \<open>cwd\<close> of the process is.
\<close>

definition hostIn :: "string \<Rightarrow> nat host" where
  "hostIn cwd =
     exampleHost
       \<lparr>NANINOVEL_LANGUAGE_SERVER_PATH := Some ''server.dll'',
        existsSync := (\<lambda>p. True),
        path_resolve := resolveIn cwd\<rparr>"

text \<open>
  The concrete host with a server that never becomes ready, and with a library whose
  fresh default error handler starts from another state.
\<close>

definition hostNotReady :: "nat host" where
  "hostNotReady = exampleHost\<lparr>onReady := Some (HostFailure ''server crashed'')\<rparr>"

definition hostOtherHandler :: "nat host" where
  "hostOtherHandler = exampleHost\<lparr>createDefaultErrorHandler := 4\<rparr>"

text \<open>
  A host that differs from the concrete one in what the launch does not ask for: other
  files on disk, another telemetry library. A world with a history and no subscriptions.
\<close>

definition hostElsewhere :: "nat host" where
  "hostElsewhere =
     exampleHost
       \<lparr>existsSync := (\<lambda>p. p = ''/ext/server/NaninovelLanguageServer.dll''),
        parseError_message := (\<lambda>failure. ''unknown''),
        initTelemetry := \<lparr>properties = [], measurements = []\<rparr>\<rparr>"

definition laterWorld :: "nat world" where
  "laterWorld =
     \<lparr>trace = [LoggerInfo ''Extension activated.''], subscriptions = [], client = None,
      now = 1000\<rparr>"

definition exampleContext :: extension_context where
  "exampleContext = \<lparr>asAbsolutePath = (\<lambda>relativePath. ''/ext/'' @ relativePath)\<rparr>"

definition exampleChannel :: output_channel where
  "exampleChannel = OutputChannel ''Naninovel''"

definition exampleWorld :: "nat world" where
  "exampleWorld =
     \<lparr>trace = [], subscriptions = [OtherDisposable ''logger''], client = None, now = 1000\<rparr>"

section \<open>Properties\<close>

subsection \<open>The functions, case by case\<close>

lemma ensureDotnetRuntimeInstalled_eq:
  "ensureDotnetRuntimeInstalled h w =
     (case acquireOutcome h of
        Inl failure \<Rightarrow> Inl (Rejected failure)
      | Inr None \<Rightarrow> Inl (Error ''Failed to install .NET runtime v3.1.'')
      | Inr (Some result) \<Rightarrow> Inr (path_resolve h (dotnetPath result)),
      w\<lparr>trace := trace w @ [acquireEvent]\<rparr>)"
  by (simp add: ensureDotnetRuntimeInstalled_def acquireOutcome_def acquireEvent_def emit_def
      dotnetRuntimeVersion_def extensionId_def Let_def split: sum.splits option.splits)

lemma ensureLanguageServerExists_eq:
  "ensureLanguageServerExists h context w =
     (if existsSync h (chosenServerPath h context)
      then Inr (path_resolve h (chosenServerPath h context))
      else Inl (Error (''Language server does not exist at '' @ quote
                        @ chosenServerPath h context @ quote @ ''.'')),
      w\<lparr>trace := trace w @ [ExistsSync (chosenServerPath h context)]\<rparr>)"
  by (simp add: ensureLanguageServerExists_def chosenServerPath_def emit_def
      packagedServerPath_def Let_def split: option.splits)

lemma launch_rejected:
  assumes "acquireOutcome h = Inl failure"
  shows "launchLanguageService h context channel w =
           (Inl (Rejected failure),
            w\<lparr>trace := trace w @
                 [LoggerInfo ''Launching Naninovel language service...'', acquireEvent]\<rparr>)"
  using assms
  by (simp add: launchLanguageService_def ensureDotnetRuntimeInstalled_eq emit_def Let_def)

lemma launch_no_runtime:
  assumes "acquireOutcome h = Inr None"
  shows "launchLanguageService h context channel w =
           (Inl (Error ''Failed to install .NET runtime v3.1.''),
            w\<lparr>trace := trace w @
                 [LoggerInfo ''Launching Naninovel language service...'', acquireEvent]\<rparr>)"
  using assms
  by (simp add: launchLanguageService_def ensureDotnetRuntimeInstalled_eq emit_def Let_def)

lemma launch_no_server:
  assumes "acquireOutcome h = Inr (Some result)"
    and "\<not> existsSync h (chosenServerPath h context)"
  shows "launchLanguageService h context channel w =
           (Inl (Error (''Language server does not exist at '' @ quote
                         @ chosenServerPath h context @ quote @ ''.'')),
            w\<lparr>trace := trace w @
                 [LoggerInfo ''Launching Naninovel language service...'',
                  acquireEvent,
                  LoggerDebug (''Found dotnet command at '' @ quote
                               @ path_resolve h (dotnetPath result) @ quote @ ''.''),
                  ExistsSync (chosenServerPath h context)]\<rparr>)"
  using assms
  by (simp add: launchLanguageService_def ensureDotnetRuntimeInstalled_eq
      ensureLanguageServerExists_eq emit_def Let_def)


lemma emit_eq: "emit e w = trace_update (\<lambda>t. t @ [e]) w"
  by (simp add: emit_def)

lemma configureTelemetry_eq:
  "configureTelemetry h w =
     w\<lparr>trace := trace w @ [CreateDefaultErrorHandler, OnTelemetry, SetErrorHandler],
       client :=
         map_option
           (\<lambda>c. c\<lparr>telemetryListeners := telemetryListeners c @ [TelemetryListener],
                  clientOptions := (clientOptions c)
                    \<lparr>errorHandler :=
                       Some \<lparr>startTime = now w,
                             defaultErrorHandler = createDefaultErrorHandler h\<rparr>\<rparr>\<rparr>)
           (client w)\<rparr>"
  by (cases "client w") (simp_all add: configureTelemetry_def emit_def Let_def)

lemma launch_started:
  assumes "acquireOutcome h = Inr (Some result)"
    and "existsSync h (chosenServerPath h context)"
  shows "launchLanguageService h context channel w =
           (case onReady h of Some failure \<Rightarrow> Inl (Rejected failure) | None \<Rightarrow> Inr (),
            w\<lparr>trace := trace w @
                 [LoggerInfo ''Launching Naninovel language service...'',
                  acquireEvent,
                  LoggerDebug (''Found dotnet command at '' @ quote
                               @ path_resolve h (dotnetPath result) @ quote @ ''.''),
                  ExistsSync (chosenServerPath h context),
                  LoggerDebug (''Found language server at '' @ quote
                               @ path_resolve h (chosenServerPath h context) @ quote @ ''.''),
                  CreateFileSystemWatcher ''**/*.nani'',
                  NewLanguageClient,
                  CreateDefaultErrorHandler,
                  OnTelemetry,
                  SetErrorHandler,
                  ClientStart,
                  SubscriptionsPush ClientDisposable,
                  LoggerInfo ''Naninovel language service started.'',
                  ClientOnReady]
                 @ (case onReady h of
                      Some failure \<Rightarrow> []
                    | None \<Rightarrow> [LoggerInfo ''Naninovel language service ready.'']),
              subscriptions := subscriptions w @ [ClientDisposable],
              client := Some (constructedClient h channel (path_resolve h (dotnetPath result))
                                (path_resolve h (chosenServerPath h context)) (now w))\<rparr>)"
  using assms
  by (cases "onReady h")
    (simp_all add: launchLanguageService_def ensureDotnetRuntimeInstalled_eq
      ensureLanguageServerExists_eq configureTelemetry_eq constructedClient_def
      languageId_def emit_eq Let_def)


lemma steps_rejected:
  assumes "acquireOutcome h = Inl failure"
  shows "steps w (snd (launchLanguageService h context channel w)) = [Acquire]"
  by (simp add: launch_rejected [OF assms] steps_def run_events_def acquireEvent_def
      List.map_filter_simps)

lemma steps_no_runtime:
  assumes "acquireOutcome h = Inr None"
  shows "steps w (snd (launchLanguageService h context channel w)) = [Acquire]"
  by (simp add: launch_no_runtime [OF assms] steps_def run_events_def acquireEvent_def
      List.map_filter_simps)

lemma steps_no_server:
  assumes "acquireOutcome h = Inr (Some result)"
    and "\<not> existsSync h (chosenServerPath h context)"
  shows "steps w (snd (launchLanguageService h context channel w)) = [Acquire, Verify]"
  by (simp add: launch_no_server [OF assms] steps_def run_events_def acquireEvent_def
      List.map_filter_simps)

lemma steps_started:
  assumes "acquireOutcome h = Inr (Some result)"
    and "existsSync h (chosenServerPath h context)"
  shows "steps w (snd (launchLanguageService h context channel w)) =
           [Acquire, Verify, Construct, Start, Push, AwaitReady]"
  by (cases "onReady h")
    (simp_all add: launch_started [OF assms] steps_def run_events_def acquireEvent_def
      List.map_filter_simps)

lemma launch_trace_prefix:
  "prefix (trace w) (trace (snd (launchLanguageService h context channel w)))"
proof (cases "acquireOutcome h")
  case (Inl failure)
  then show ?thesis by (simp add: launch_rejected)
next
  case (Inr answer)
  show ?thesis
  proof (cases answer)
    case None
    with Inr show ?thesis by (simp add: launch_no_runtime)
  next
    case (Some result)
    with Inr show ?thesis
      by (cases "existsSync h (chosenServerPath h context)")
        (simp_all add: launch_started launch_no_server)
  qed
qed

lemma launch_cases [case_names rejected no_runtime no_server started]:
  obtains failure where "acquireOutcome h = Inl failure"
  | "acquireOutcome h = Inr None"
  | result where "acquireOutcome h = Inr (Some result)"
      and "\<not> existsSync h (chosenServerPath h c)"
  | result where "acquireOutcome h = Inr (Some result)"
      and "existsSync h (chosenServerPath h c)"
proof (cases "acquireOutcome h")
  case (Inl failure)
  then show ?thesis using that(1) by blast
next
  case (Inr answer)
  then show ?thesis
    using that(2-4) by (cases answer; cases "existsSync h (chosenServerPath h c)") auto
qed

lemma last_event_rejected:
  assumes "acquireOutcome h = Inl failure"
  shows "step_of (last (run_events w (snd (launchLanguageService h c channel w)))) = Some Acquire"
  by (simp add: launch_rejected [OF assms] run_events_def acquireEvent_def)

lemma last_event_no_runtime:
  assumes "acquireOutcome h = Inr None"
  shows "step_of (last (run_events w (snd (launchLanguageService h c channel w)))) = Some Acquire"
  by (simp add: launch_no_runtime [OF assms] run_events_def acquireEvent_def)

lemma last_event_no_server:
  assumes "acquireOutcome h = Inr (Some result)"
    and "\<not> existsSync h (chosenServerPath h c)"
  shows "step_of (last (run_events w (snd (launchLanguageService h c channel w)))) = Some Verify"
  by (simp add: launch_no_server [OF assms] run_events_def)

lemma last_event_not_ready:
  assumes "acquireOutcome h = Inr (Some result)"
    and "existsSync h (chosenServerPath h c)"
    and "onReady h = Some failure"
  shows "step_of (last (run_events w (snd (launchLanguageService h c channel w)))) =
           Some AwaitReady"
  using assms(3) by (simp add: launch_started [OF assms(1,2)] run_events_def)

subsection \<open>The concrete host\<close>

lemma example_acquired:
  "acquireOutcome exampleHost = Inr (Some \<lparr>dotnetPath = ''/opt/dotnet/dotnet''\<rparr>)"
  by (simp add: acquireOutcome_def exampleHost_def)

lemma example_chosen:
  "chosenServerPath exampleHost exampleContext = ''/ext/server/NaninovelLanguageServer.dll''"
  by (simp add: chosenServerPath_def exampleHost_def exampleContext_def)

lemma example_exists:
  "existsSync exampleHost (chosenServerPath exampleHost exampleContext)"
  by (simp add: example_chosen) (simp add: exampleHost_def)

lemma example_returns:
  "fst (launchLanguageService exampleHost exampleContext exampleChannel exampleWorld) = Inr ()"
  by (simp add: launch_started [OF example_acquired example_exists]) (simp add: exampleHost_def)

lemma override_acquired:
  "acquireOutcome (hostWithOverride local) = Inr (Some \<lparr>dotnetPath = ''/opt/dotnet/dotnet''\<rparr>)"
  by (simp add: acquireOutcome_def hostWithOverride_def exampleHost_def)

lemma override_chosen: "chosenServerPath (hostWithOverride local) c = local"
  by (simp add: chosenServerPath_def hostWithOverride_def)

lemma override_exists:
  "existsSync (hostWithOverride local) p \<longleftrightarrow>
     p = ''/ext/server/NaninovelLanguageServer.dll'' \<or> p = ''/dev/server.dll''"
  by (simp add: hostWithOverride_def exampleHost_def)

lemma without_runtime: "acquireOutcome hostWithoutRuntime = Inr None"
  by (simp add: acquireOutcome_def hostWithoutRuntime_def)

lemma example_resolve: "path_resolve exampleHost = resolveIn ''/work''"
  by (simp add: exampleHost_def)

lemma example_packaged: "existsSync exampleHost ''/ext/server/NaninovelLanguageServer.dll''"
  by (simp add: exampleHost_def)

subsection \<open>Order of the steps\<close>

text \<open>
  C1. Every run of \<open>launchLanguageService\<close> performs the steps in one order: it acquires
  the runtime, then checks that the server file exists, then constructs the client,
  starts it and pushes its disposable onto \<^verbatim>\<open>context.subscriptions\<close>, then awaits
  readiness. A run only appends to the trace. When acquiring throws, the run stops
  after that step; when the check throws, it stops after the check; otherwise all six
  steps are taken, in this order, and in particular a run that returns has taken all of
  them. A run that throws does nothing after the step that threw: its last event is its
  last step.
\<close>

theorem launch_steps_in_order:
  "prefix (trace w) (trace (snd (launchLanguageService h context channel w)))
   \<and> steps w (snd (launchLanguageService h context channel w)) =
       (if isl (fst (ensureDotnetRuntimeInstalled h w)) then [Acquire]
        else if isl (fst (ensureLanguageServerExists h context w)) then [Acquire, Verify]
        else [Acquire, Verify, Construct, Start, Push, AwaitReady])
   \<and> (fst (launchLanguageService h context channel w) = Inr () \<longrightarrow>
        steps w (snd (launchLanguageService h context channel w)) =
          [Acquire, Verify, Construct, Start, Push, AwaitReady])
   \<and> (isl (fst (launchLanguageService h context channel w)) \<longrightarrow>
        step_of (last (run_events w (snd (launchLanguageService h context channel w)))) =
          Some (last (steps w (snd (launchLanguageService h context channel w)))))"
proof (cases rule: launch_cases [where h = h and c = "context"])
  case (rejected failure)
  have "steps w (snd (launchLanguageService h context channel w)) = [Acquire]"
    by (rule steps_rejected [OF rejected])
  moreover have "fst (launchLanguageService h context channel w) = Inl (Rejected failure)"
    by (simp add: launch_rejected [OF rejected])
  moreover note last_event_rejected [OF rejected, of w "context" channel]
  ultimately show ?thesis
    using rejected by (simp add: launch_trace_prefix ensureDotnetRuntimeInstalled_eq)
next
  case no_runtime
  have "steps w (snd (launchLanguageService h context channel w)) = [Acquire]"
    by (rule steps_no_runtime [OF no_runtime])
  moreover have "fst (launchLanguageService h context channel w) =
      Inl (Error ''Failed to install .NET runtime v3.1.'')"
    by (simp add: launch_no_runtime [OF no_runtime])
  moreover note last_event_no_runtime [OF no_runtime, of w "context" channel]
  ultimately show ?thesis
    using no_runtime by (simp add: launch_trace_prefix ensureDotnetRuntimeInstalled_eq)
next
  case (no_server result)
  have "steps w (snd (launchLanguageService h context channel w)) = [Acquire, Verify]"
    by (rule steps_no_server [OF no_server])
  moreover have "isl (fst (launchLanguageService h context channel w))"
    by (simp add: launch_no_server [OF no_server])
  moreover note last_event_no_server [OF no_server, of w channel]
  ultimately show ?thesis
    using no_server
    by (auto simp add: launch_trace_prefix ensureDotnetRuntimeInstalled_eq
        ensureLanguageServerExists_eq)
next
  case (started result)
  have all: "steps w (snd (launchLanguageService h context channel w)) =
      [Acquire, Verify, Construct, Start, Push, AwaitReady]"
    by (rule steps_started [OF started])
  have "isl (fst (launchLanguageService h context channel w)) \<longrightarrow>
      step_of (last (run_events w (snd (launchLanguageService h context channel w)))) =
        Some AwaitReady"
  proof (cases "onReady h")
    case None
    then show ?thesis by (simp add: launch_started [OF started])
  next
    case (Some failure)
    then show ?thesis by (simp add: last_event_not_ready [OF started])
  qed
  with all show ?thesis
    using started
    by (simp add: launch_trace_prefix ensureDotnetRuntimeInstalled_eq
        ensureLanguageServerExists_eq)
qed

theorem launch_steps_in_order_witness:
  "fst (launchLanguageService exampleHost exampleContext exampleChannel exampleWorld) = Inr ()
   \<and> steps exampleWorld
        (snd (launchLanguageService exampleHost exampleContext exampleChannel exampleWorld)) =
       [Acquire, Verify, Construct, Start, Push, AwaitReady]"
  using launch_steps_in_order [of exampleWorld exampleHost exampleContext exampleChannel]
    example_returns
  by blast

subsection \<open>What the launch throws\<close>

text \<open>
  C2. \<open>launchLanguageService\<close> throws an error of its own exactly when the acquisition
  command answers \<^verbatim>\<open>undefined\<close>, or the runtime is acquired and the chosen server
  path is not on disk. In the first case the message names the runtime version, in the
  second the path. In both the command is issued once, and the file check is made not
  at all in the first case and once in the second: nothing is retried.
\<close>

theorem launch_throws_iff_setup_fails:
  "((\<exists>m. fst (launchLanguageService h context channel w) = Inl (Error m)) \<longleftrightarrow>
      acquireOutcome h = Inr None
      \<or> (\<exists>result. acquireOutcome h = Inr (Some result))
          \<and> \<not> existsSync h (chosenServerPath h context))
   \<and> (acquireOutcome h = Inr None \<longrightarrow>
        fst (launchLanguageService h context channel w) =
          Inl (Error (''Failed to install .NET runtime v'' @ dotnetRuntimeVersion @ ''.''))
        \<and> count_list (steps w (snd (launchLanguageService h context channel w))) Acquire = 1
        \<and> count_list (steps w (snd (launchLanguageService h context channel w))) Verify = 0)
   \<and> ((\<exists>result. acquireOutcome h = Inr (Some result))
          \<and> \<not> existsSync h (chosenServerPath h context) \<longrightarrow>
        fst (launchLanguageService h context channel w) =
          Inl (Error (''Language server does not exist at '' @ quote
                       @ chosenServerPath h context @ quote @ ''.''))
        \<and> count_list (steps w (snd (launchLanguageService h context channel w))) Acquire = 1
        \<and> count_list (steps w (snd (launchLanguageService h context channel w))) Verify = 1)"
proof (cases rule: launch_cases [where h = h and c = "context"])
  case (rejected failure)
  then show ?thesis by (simp add: launch_rejected)
next
  case no_runtime
  then show ?thesis
    by (simp add: steps_no_runtime launch_no_runtime [THEN arg_cong, of _ fst]
        dotnetRuntimeVersion_def)
next
  case (no_server result)
  then show ?thesis
    by (simp add: steps_no_server launch_no_server [THEN arg_cong, of _ _ _ fst])
next
  case (started result)
  then show ?thesis
    by (cases "onReady h") (simp_all add: launch_started [THEN arg_cong, of _ _ _ fst])
qed

theorem launch_throws_iff_setup_fails_witness:
  "acquireOutcome hostWithoutRuntime = Inr None
   \<and> fst (launchLanguageService hostWithoutRuntime exampleContext exampleChannel exampleWorld) =
       Inl (Error ''Failed to install .NET runtime v3.1.'')
   \<and> (\<exists>result. acquireOutcome (hostWithOverride ''/missing/server.dll'') = Inr (Some result))
   \<and> \<not> existsSync (hostWithOverride ''/missing/server.dll'')
         (chosenServerPath (hostWithOverride ''/missing/server.dll'') exampleContext)
   \<and> fst (launchLanguageService (hostWithOverride ''/missing/server.dll'') exampleContext
             exampleChannel exampleWorld) =
       Inl (Error (''Language server does not exist at '' @ quote @ ''/missing/server.dll''
                    @ quote @ ''.''))"
  using launch_throws_iff_setup_fails
      [of hostWithoutRuntime exampleContext exampleChannel exampleWorld]
    launch_throws_iff_setup_fails
      [of "hostWithOverride ''/missing/server.dll''" exampleContext exampleChannel exampleWorld]
  by (simp add: without_runtime override_acquired override_chosen override_exists
      dotnetRuntimeVersion_def)

subsection \<open>Where the server is looked for\<close>

text \<open>
  C3. When the environment variable \<^verbatim>\<open>NANINOVEL_LANGUAGE_SERVER_PATH\<close> is defined,
  \<open>ensureLanguageServerExists\<close> checks and resolves its value; otherwise it checks and
  resolves what \<^verbatim>\<open>context.asAbsolutePath\<close> makes of the relative path
  \<^verbatim>\<open>server/NaninovelLanguageServer.dll\<close>.
\<close>

theorem server_path_selection:
  "(NANINOVEL_LANGUAGE_SERVER_PATH h = Some local \<longrightarrow>
      ensureLanguageServerExists h context w =
        (if existsSync h local then Inr (path_resolve h local)
         else Inl (Error (''Language server does not exist at '' @ quote @ local @ quote @ ''.'')),
         emit (ExistsSync local) w))
   \<and> (NANINOVEL_LANGUAGE_SERVER_PATH h = None \<longrightarrow>
      ensureLanguageServerExists h context w =
        (if existsSync h (asAbsolutePath context ''server/NaninovelLanguageServer.dll'')
         then Inr (path_resolve h (asAbsolutePath context ''server/NaninovelLanguageServer.dll''))
         else Inl (Error (''Language server does not exist at '' @ quote
                           @ asAbsolutePath context ''server/NaninovelLanguageServer.dll''
                           @ quote @ ''.'')),
         emit (ExistsSync (asAbsolutePath context ''server/NaninovelLanguageServer.dll'')) w))"
  by (simp add: ensureLanguageServerExists_def packagedServerPath_def Let_def)

theorem server_path_selection_witness:
  "NANINOVEL_LANGUAGE_SERVER_PATH (hostWithOverride ''/dev/server.dll'') = Some ''/dev/server.dll''
   \<and> fst (ensureLanguageServerExists (hostWithOverride ''/dev/server.dll'') exampleContext
             exampleWorld) = Inr ''/dev/server.dll''
   \<and> NANINOVEL_LANGUAGE_SERVER_PATH exampleHost = None
   \<and> fst (ensureLanguageServerExists exampleHost exampleContext exampleWorld) =
       Inr ''/ext/server/NaninovelLanguageServer.dll''"
  using server_path_selection
      [of "hostWithOverride ''/dev/server.dll''" "''/dev/server.dll''" exampleContext exampleWorld]
    server_path_selection [of exampleHost _ exampleContext exampleWorld]
  by (simp add: hostWithOverride_def exampleHost_def exampleContext_def resolveIn_def)

text \<open>
  C8. When the variable is defined and names a path that is not on disk,
  \<open>ensureLanguageServerExists\<close> throws, naming that path, and the only file check it made
  is the one of that path: it does not fall back to the packaged server, whether or not
  that one is on disk. The variable may be the empty string.
\<close>

theorem override_is_authoritative:
  assumes "NANINOVEL_LANGUAGE_SERVER_PATH h = Some local"
    and "\<not> existsSync h local"
  shows "fst (ensureLanguageServerExists h context w) =
           Inl (Error (''Language server does not exist at '' @ quote @ local @ quote @ ''.''))
         \<and> trace (snd (ensureLanguageServerExists h context w)) = trace w @ [ExistsSync local]"
  using assms by (simp add: ensureLanguageServerExists_def emit_def Let_def)

theorem override_is_authoritative_witness:
  "NANINOVEL_LANGUAGE_SERVER_PATH (hostWithOverride []) = Some []
   \<and> \<not> existsSync (hostWithOverride []) []
   \<and> existsSync (hostWithOverride []) (asAbsolutePath exampleContext packagedServerPath)
   \<and> fst (ensureLanguageServerExists (hostWithOverride []) exampleContext exampleWorld) =
       Inl (Error (''Language server does not exist at '' @ quote @ quote @ ''.''))
   \<and> trace (snd (ensureLanguageServerExists (hostWithOverride []) exampleContext exampleWorld)) =
       [ExistsSync []]"
proof -
  have defined: "NANINOVEL_LANGUAGE_SERVER_PATH (hostWithOverride []) = Some []"
    by (simp add: hostWithOverride_def)
  have missing: "\<not> existsSync (hostWithOverride []) []"
    by (simp add: override_exists)
  have packaged:
    "existsSync (hostWithOverride []) (asAbsolutePath exampleContext packagedServerPath)"
    by (simp add: override_exists exampleContext_def packagedServerPath_def)
  from override_is_authoritative [OF defined missing, of exampleContext exampleWorld]
    defined missing packaged
  show ?thesis by (simp add: exampleWorld_def)
qed

subsection \<open>A failed setup starts nothing\<close>

text \<open>
  C9. When \<open>launchLanguageService\<close> throws an error of its own, or the acquisition
  command is rejected, the client in the world and \<^verbatim>\<open>context.subscriptions\<close> are as
  they were, and the run has neither constructed a client, nor started one, nor pushed a
  disposable.
\<close>

theorem setup_failure_starts_nothing:
  assumes "fst (launchLanguageService h context channel w) = Inl (Error m)
           \<or> (\<exists>failure. acquireOutcome h = Inl failure)"
  shows "client (snd (launchLanguageService h context channel w)) = client w
         \<and> subscriptions (snd (launchLanguageService h context channel w)) = subscriptions w
         \<and> Construct \<notin> set (steps w (snd (launchLanguageService h context channel w)))
         \<and> Start \<notin> set (steps w (snd (launchLanguageService h context channel w)))
         \<and> Push \<notin> set (steps w (snd (launchLanguageService h context channel w)))"
proof (cases rule: launch_cases [where h = h and c = "context"])
  case (rejected failure)
  then show ?thesis by (simp add: steps_rejected) (simp add: launch_rejected)
next
  case no_runtime
  then show ?thesis by (simp add: steps_no_runtime) (simp add: launch_no_runtime)
next
  case (no_server result)
  then show ?thesis by (simp add: steps_no_server) (simp add: launch_no_server)
next
  case (started result)
  with assms show ?thesis
    by (cases "onReady h") (simp_all add: launch_started)
qed

theorem setup_failure_starts_nothing_witness:
  "fst (launchLanguageService hostWithoutRuntime exampleContext exampleChannel exampleWorld) =
     Inl (Error ''Failed to install .NET runtime v3.1.'')
   \<and> client (snd (launchLanguageService hostWithoutRuntime exampleContext exampleChannel
                     exampleWorld)) = None
   \<and> subscriptions (snd (launchLanguageService hostWithoutRuntime exampleContext exampleChannel
                            exampleWorld)) = [OtherDisposable ''logger'']
   \<and> Construct \<notin> set (steps exampleWorld
        (snd (launchLanguageService hostWithoutRuntime exampleContext exampleChannel
               exampleWorld)))"
proof -
  have thrown:
    "fst (launchLanguageService hostWithoutRuntime exampleContext exampleChannel exampleWorld) =
       Inl (Error ''Failed to install .NET runtime v3.1.'')"
    by (simp add: launch_no_runtime [OF without_runtime])
  from setup_failure_starts_nothing [OF disjI1, OF thrown] thrown
  show ?thesis by (simp add: exampleWorld_def)
qed

subsection \<open>Telemetry and errors of the server\<close>

text \<open>
  C5. For every telemetry event, the listener calls the telemetry library once, under
  the name of the event, and does not throw. The context the library is left with has
  the properties of the event, unchanged, as its properties, has the display of errors
  suppressed, and has the measurements the library started with.
\<close>

theorem telemetry_is_passed_through:
  "\<exists>reported.
     telemetryListener h telemetryData w =
       (None, emit (CallWithTelemetry (eventName telemetryData) reported None) w)
     \<and> properties (telemetry reported) = eventProperties telemetryData
     \<and> suppressDisplay (errorHandling reported)
     \<and> measurements (telemetry reported) = measurements (initTelemetry h)"
proof -
  let ?reported =
    "\<lparr>telemetry = (initTelemetry h)\<lparr>properties := eventProperties telemetryData\<rparr>,
      errorHandling = \<lparr>suppressDisplay = True, rethrow = False\<rparr>\<rparr>"
  have "telemetryListener h telemetryData w =
      (None, emit (CallWithTelemetry (eventName telemetryData) ?reported None) w)"
    by (simp add: telemetryListener_def callWithTelemetryAndErrorHandlingSync_def
        initContext_def)
  then show ?thesis
    by (intro exI [of _ ?reported]) simp
qed

text \<open>
  C4. For every error of the server and every closing of the connection, the installed
  error handler calls the telemetry library once, under the id
  \<^verbatim>\<open>naniscript.lsp-error\<close>, with a callback that throws; it then returns the action
  the default error handler returns for the same event, and the default handler goes
  through the state change of that one call.
\<close>

theorem error_handler_reports_and_defers:
  "(\<exists>reported thrown.
      errorHandler_error h self error message count w =
        (Inr (fst (default_error h error message count (defaultErrorHandler self))),
         self\<lparr>defaultErrorHandler :=
                snd (default_error h error message count (defaultErrorHandler self))\<rparr>,
         emit (CallWithTelemetry ''naniscript.lsp-error'' reported (Some thrown)) w))
   \<and> (\<exists>reported thrown.
      errorHandler_closed h self w =
        (Inr (fst (default_closed h (defaultErrorHandler self))),
         self\<lparr>defaultErrorHandler := snd (default_closed h (defaultErrorHandler self))\<rparr>,
         emit (CallWithTelemetry ''naniscript.lsp-error'' reported (Some thrown)) w))"
proof (intro conjI)
  let ?reported =
    "\<lparr>telemetry = (initTelemetry h)
        \<lparr>properties :=
           AList.update ''jsonrpcMessage''
             (Some (case message of Some m \<Rightarrow> jsonrpc m | None \<Rightarrow> []))
             (properties (initTelemetry h)),
         measurements :=
           AList.update ''secondsSinceStart''
             (real_of_int (now w - startTime self) / 1000)
             (measurements (initTelemetry h))\<rparr>,
      errorHandling = \<lparr>suppressDisplay = False, rethrow = False\<rparr>\<rparr>"
  let ?thrown = "Error (''Error: '' @ parseError_message h error)"
  have "errorHandler_error h self error message count w =
      (Inr (fst (default_error h error message count (defaultErrorHandler self))),
       self\<lparr>defaultErrorHandler :=
              snd (default_error h error message count (defaultErrorHandler self))\<rparr>,
       emit (CallWithTelemetry ''naniscript.lsp-error'' ?reported (Some ?thrown)) w)"
    by (simp add: errorHandler_error_def callWithTelemetryAndErrorHandlingSync_def
        initContext_def split: prod.splits)
  then show "\<exists>reported thrown.
      errorHandler_error h self error message count w =
        (Inr (fst (default_error h error message count (defaultErrorHandler self))),
         self\<lparr>defaultErrorHandler :=
                snd (default_error h error message count (defaultErrorHandler self))\<rparr>,
         emit (CallWithTelemetry ''naniscript.lsp-error'' reported (Some thrown)) w)"
    by blast
next
  let ?reported =
    "\<lparr>telemetry = (initTelemetry h)
        \<lparr>measurements :=
           AList.update ''secondsSinceStart''
             (real_of_int (now w - startTime self) / 1000)
             (measurements (initTelemetry h))\<rparr>,
      errorHandling = \<lparr>suppressDisplay = False, rethrow = False\<rparr>\<rparr>"
  have "errorHandler_closed h self w =
      (Inr (fst (default_closed h (defaultErrorHandler self))),
       self\<lparr>defaultErrorHandler := snd (default_closed h (defaultErrorHandler self))\<rparr>,
       emit (CallWithTelemetry ''naniscript.lsp-error'' ?reported
               (Some (Error ''Connection closed''))) w)"
    by (simp add: errorHandler_closed_def callWithTelemetryAndErrorHandlingSync_def
        initContext_def split: prod.splits)
  then show "\<exists>reported thrown.
      errorHandler_closed h self w =
        (Inr (fst (default_closed h (defaultErrorHandler self))),
         self\<lparr>defaultErrorHandler := snd (default_closed h (defaultErrorHandler self))\<rparr>,
         emit (CallWithTelemetry ''naniscript.lsp-error'' reported (Some thrown)) w)"
    by blast
qed

text \<open>
  The handlers the two theorems are about are the ones a launch installs: the listener,
  and the error handler that holds the time of the launch and a fresh default handler.
\<close>

lemma launch_installs_handlers:
  assumes "acquireOutcome h = Inr (Some result)"
    and "existsSync h (chosenServerPath h c)"
  shows "\<exists>installed.
           client (snd (launchLanguageService h c channel w)) = Some installed
           \<and> telemetryListeners installed = [TelemetryListener]
           \<and> errorHandler (clientOptions installed) =
               Some \<lparr>startTime = now w, defaultErrorHandler = createDefaultErrorHandler h\<rparr>"
  by (simp add: launch_started [OF assms] constructedClient_def)

text \<open>The three handlers, run on the concrete host.\<close>

lemma telemetryListener_example:
  "telemetryListener exampleHost
     \<lparr>eventName = ''naniscript.completion'',
      eventProperties = [(''kind'', Some ''command''), (''label'', None)]\<rparr>
     exampleWorld =
   (None,
    exampleWorld
      \<lparr>trace :=
         [CallWithTelemetry ''naniscript.completion''
            \<lparr>telemetry =
               \<lparr>properties = [(''kind'', Some ''command''), (''label'', None)],
                measurements = [(''duration'', 0)]\<rparr>,
             errorHandling = \<lparr>suppressDisplay = True, rethrow = False\<rparr>\<rparr>
            None]\<rparr>)"
  by (simp add: telemetryListener_def callWithTelemetryAndErrorHandlingSync_def
      initContext_def exampleHost_def exampleWorld_def emit_def)

lemma errorHandler_error_example:
  "errorHandler_error exampleHost \<lparr>startTime = 1000, defaultErrorHandler = 0\<rparr>
     (HostFailure ''pipe broken'') (Some \<lparr>jsonrpc = ''2.0''\<rparr>) (Some 1)
     (exampleWorld\<lparr>now := 4000\<rparr>) =
   (Inr Continue,
    \<lparr>startTime = 1000, defaultErrorHandler = 0\<rparr>,
    exampleWorld
      \<lparr>trace :=
         [CallWithTelemetry ''naniscript.lsp-error''
            \<lparr>telemetry =
               \<lparr>properties = [(''result'', Some ''Succeeded''), (''jsonrpcMessage'', Some ''2.0'')],
                measurements = [(''duration'', 0), (''secondsSinceStart'', 3)]\<rparr>,
             errorHandling = \<lparr>suppressDisplay = False, rethrow = False\<rparr>\<rparr>
            (Some (Error ''Error: pipe broken''))],
       now := 4000\<rparr>)"
  by (simp add: errorHandler_error_def callWithTelemetryAndErrorHandlingSync_def
      initContext_def exampleHost_def exampleWorld_def emit_def)

lemma errorHandler_closed_example:
  "errorHandler_closed exampleHost \<lparr>startTime = 1000, defaultErrorHandler = 4\<rparr>
     (exampleWorld\<lparr>now := 4000\<rparr>) =
   (Inr DoNotRestart,
    \<lparr>startTime = 1000, defaultErrorHandler = 5\<rparr>,
    exampleWorld
      \<lparr>trace :=
         [CallWithTelemetry ''naniscript.lsp-error''
            \<lparr>telemetry =
               \<lparr>properties = [(''result'', Some ''Succeeded'')],
                measurements = [(''duration'', 0), (''secondsSinceStart'', 3)]\<rparr>,
             errorHandling = \<lparr>suppressDisplay = False, rethrow = False\<rparr>\<rparr>
            (Some (Error ''Connection closed''))],
       now := 4000\<rparr>)"
  by (simp add: errorHandler_closed_def callWithTelemetryAndErrorHandlingSync_def
      initContext_def exampleHost_def exampleWorld_def emit_def)

subsection \<open>The command of the server\<close>

text \<open>
  C6. When both paths are found, the launch constructs a client whose run option is the
  executable with the runtime path, as \<open>ensureDotnetRuntimeInstalled\<close> returned it, for
  command and the server path, as \<open>ensureLanguageServerExists\<close> returned it, for only
  argument; the debug option is the same executable.
\<close>

theorem server_command_is_runtime_with_server:
  assumes "fst (ensureDotnetRuntimeInstalled h w) = Inr dotnetCommandPath"
    and "fst (ensureLanguageServerExists h context w) = Inr languageServerPath"
  shows "\<exists>c. client (snd (launchLanguageService h context channel w)) = Some c
           \<and> Construct \<in> set (steps w (snd (launchLanguageService h context channel w)))
           \<and> run (serverOptions c) =
               \<lparr>command = dotnetCommandPath, args = [languageServerPath]\<rparr>
           \<and> debug (serverOptions c) = run (serverOptions c)"
proof (cases rule: launch_cases [where h = h and c = "context"])
  case (rejected failure)
  with assms(1) show ?thesis by (simp add: ensureDotnetRuntimeInstalled_eq)
next
  case no_runtime
  with assms(1) show ?thesis by (simp add: ensureDotnetRuntimeInstalled_eq)
next
  case (no_server result)
  with assms(2) show ?thesis by (simp add: ensureLanguageServerExists_eq)
next
  case (started result)
  from started assms have paths:
    "dotnetCommandPath = path_resolve h (dotnetPath result)"
    "languageServerPath = path_resolve h (chosenServerPath h context)"
    by (simp_all add: ensureDotnetRuntimeInstalled_eq ensureLanguageServerExists_eq)
  show ?thesis
    by (simp add: steps_started [OF started])
      (simp add: launch_started [OF started] constructedClient_def paths)
qed

theorem server_command_is_runtime_with_server_witness:
  "fst (ensureDotnetRuntimeInstalled exampleHost exampleWorld) = Inr ''/opt/dotnet/dotnet''
   \<and> fst (ensureLanguageServerExists exampleHost exampleContext exampleWorld) =
       Inr ''/ext/server/NaninovelLanguageServer.dll''
   \<and> (\<exists>c. client (snd (launchLanguageService exampleHost exampleContext exampleChannel
                          exampleWorld)) = Some c
          \<and> run (serverOptions c) =
               \<lparr>command = ''/opt/dotnet/dotnet'',
                args = [''/ext/server/NaninovelLanguageServer.dll'']\<rparr>
          \<and> debug (serverOptions c) = run (serverOptions c))"
proof -
  have runtime:
    "fst (ensureDotnetRuntimeInstalled exampleHost exampleWorld) = Inr ''/opt/dotnet/dotnet''"
    by (simp add: ensureDotnetRuntimeInstalled_eq example_acquired example_resolve
        resolveIn_def)
  have server:
    "fst (ensureLanguageServerExists exampleHost exampleContext exampleWorld) =
       Inr ''/ext/server/NaninovelLanguageServer.dll''"
    by (simp add: ensureLanguageServerExists_eq example_chosen example_packaged
        example_resolve resolveIn_def)
  from server_command_is_runtime_with_server [OF runtime server, of exampleChannel]
    runtime server
  show ?thesis by blast
qed

text \<open>
  C10. What \<open>ensureDotnetRuntimeInstalled\<close> returns is \<^verbatim>\<open>path.resolve\<close> of the
  \<^verbatim>\<open>dotnetPath\<close> the host answered, and what \<open>ensureLanguageServerExists\<close> returns is
  \<^verbatim>\<open>path.resolve\<close> of the chosen server path. Hence whatever \<^verbatim>\<open>path.resolve\<close>
  guarantees of all its results (\<open>absolute\<close>: being an absolute, normalized path) holds
  of the command and of the argument of both executables of the client.
\<close>

theorem paths_are_resolved:
  "(fst (ensureDotnetRuntimeInstalled h w) = Inr dotnetCommandPath \<longrightarrow>
      (\<exists>result. acquireOutcome h = Inr (Some result)
                \<and> dotnetCommandPath = path_resolve h (dotnetPath result)))
   \<and> (fst (ensureLanguageServerExists h context w) = Inr languageServerPath \<longrightarrow>
      languageServerPath = path_resolve h (chosenServerPath h context))
   \<and> ((\<forall>p. absolute (path_resolve h p))
       \<and> fst (ensureDotnetRuntimeInstalled h w) = Inr dotnetCommandPath
       \<and> fst (ensureLanguageServerExists h context w) = Inr languageServerPath \<longrightarrow>
      (\<exists>c. client (snd (launchLanguageService h context channel w)) = Some c
           \<and> command (run (serverOptions c)) = dotnetCommandPath
           \<and> args (run (serverOptions c)) = [languageServerPath]
           \<and> absolute (command (run (serverOptions c)))
           \<and> list_all absolute (args (run (serverOptions c)))
           \<and> absolute (command (debug (serverOptions c)))
           \<and> list_all absolute (args (debug (serverOptions c)))))"
proof (cases rule: launch_cases [where h = h and c = "context"])
  case (rejected failure)
  then show ?thesis
    by (simp add: ensureDotnetRuntimeInstalled_eq ensureLanguageServerExists_eq)
next
  case no_runtime
  then show ?thesis
    by (simp add: ensureDotnetRuntimeInstalled_eq ensureLanguageServerExists_eq)
next
  case (no_server result)
  then show ?thesis
    by (simp add: ensureDotnetRuntimeInstalled_eq ensureLanguageServerExists_eq)
next
  case (started result)
  then show ?thesis
    by (auto simp add: ensureDotnetRuntimeInstalled_eq ensureLanguageServerExists_eq
        launch_started constructedClient_def)
qed


theorem paths_are_resolved_witness:
  "(\<forall>p. take 1 (path_resolve exampleHost p) = ''/'')
   \<and> fst (ensureDotnetRuntimeInstalled exampleHost exampleWorld) = Inr ''/opt/dotnet/dotnet''
   \<and> fst (ensureLanguageServerExists exampleHost exampleContext exampleWorld) =
       Inr ''/ext/server/NaninovelLanguageServer.dll''
   \<and> (\<exists>c. client (snd (launchLanguageService exampleHost exampleContext exampleChannel
                          exampleWorld)) = Some c
          \<and> take 1 (command (run (serverOptions c))) = ''/''
          \<and> list_all (\<lambda>p. take 1 p = ''/'') (args (run (serverOptions c))))"
proof -
  have absolute: "\<forall>p. take 1 (path_resolve exampleHost p) = ''/''"
    by (simp add: example_resolve resolveIn_def)
  have runtime:
    "fst (ensureDotnetRuntimeInstalled exampleHost exampleWorld) = Inr ''/opt/dotnet/dotnet''"
    by (simp add: ensureDotnetRuntimeInstalled_eq example_acquired example_resolve
        resolveIn_def)
  have server:
    "fst (ensureLanguageServerExists exampleHost exampleContext exampleWorld) =
       Inr ''/ext/server/NaninovelLanguageServer.dll''"
    by (simp add: ensureLanguageServerExists_eq example_chosen example_packaged
        example_resolve resolveIn_def)
  from paths_are_resolved
      [of exampleHost exampleWorld "''/opt/dotnet/dotnet''" exampleContext
        "''/ext/server/NaninovelLanguageServer.dll''" "\<lambda>p. take 1 p = ''/''" exampleChannel]
    absolute runtime server
  show ?thesis by blast
qed

subsection \<open>The outcome of a launch\<close>

lemma launchOutcome_alt:
  "launchOutcome h c channel w =
     (fst (launchLanguageService h c channel w),
      if Construct \<in> set (steps w (snd (launchLanguageService h c channel w)))
      then client (snd (launchLanguageService h c channel w))
      else None)"
  by (simp add: launchOutcome_def split: prod.splits)

lemma launchOutcome_eq:
  "launchOutcome h c channel w =
     (case acquireOutcome h of
        Inl failure \<Rightarrow> (Inl (Rejected failure), None)
      | Inr None \<Rightarrow> (Inl (Error ''Failed to install .NET runtime v3.1.''), None)
      | Inr (Some result) \<Rightarrow>
          if existsSync h (chosenServerPath h c)
          then (case onReady h of Some failure \<Rightarrow> Inl (Rejected failure) | None \<Rightarrow> Inr (),
                Some (constructedClient h channel (path_resolve h (dotnetPath result))
                        (path_resolve h (chosenServerPath h c)) (now w)))
          else (Inl (Error (''Language server does not exist at '' @ quote
                             @ chosenServerPath h c @ quote @ ''.'')), None))"
proof (cases rule: launch_cases [where h = h and c = c])
  case (rejected failure)
  have "steps w (snd (launchLanguageService h c channel w)) = [Acquire]"
    by (rule steps_rejected [OF rejected])
  moreover have "fst (launchLanguageService h c channel w) = Inl (Rejected failure)"
    by (simp add: launch_rejected [OF rejected])
  ultimately show ?thesis
    using rejected by (simp add: launchOutcome_alt)
next
  case no_runtime
  have "steps w (snd (launchLanguageService h c channel w)) = [Acquire]"
    by (rule steps_no_runtime [OF no_runtime])
  moreover have "fst (launchLanguageService h c channel w) =
      Inl (Error ''Failed to install .NET runtime v3.1.'')"
    by (simp add: launch_no_runtime [OF no_runtime])
  ultimately show ?thesis
    using no_runtime by (simp add: launchOutcome_alt)
next
  case (no_server result)
  have "steps w (snd (launchLanguageService h c channel w)) = [Acquire, Verify]"
    by (rule steps_no_server [OF no_server])
  moreover have "fst (launchLanguageService h c channel w) =
      Inl (Error (''Language server does not exist at '' @ quote
                   @ chosenServerPath h c @ quote @ ''.''))"
    by (simp add: launch_no_server [OF no_server])
  ultimately show ?thesis
    using no_server by (simp add: launchOutcome_alt)
next
  case (started result)
  have "steps w (snd (launchLanguageService h c channel w)) =
      [Acquire, Verify, Construct, Start, Push, AwaitReady]"
    by (rule steps_started [OF started])
  moreover have "client (snd (launchLanguageService h c channel w)) =
      Some (constructedClient h channel (path_resolve h (dotnetPath result))
              (path_resolve h (chosenServerPath h c)) (now w))"
    by (simp add: launch_started [OF started])
  moreover have "fst (launchLanguageService h c channel w) =
      (case onReady h of Some failure \<Rightarrow> Inl (Rejected failure) | None \<Rightarrow> Inr ())"
    by (simp add: launch_started [OF started])
  ultimately show ?thesis
    using started by (simp add: launchOutcome_alt)
qed

text \<open>
  C7, amended. What a launch returns or throws, and the client it constructs, are a
  function of the answer of the acquisition command, the value of the environment
  variable, the packaged server path as \<^verbatim>\<open>context.asAbsolutePath\<close> gives it, the
  answer of the file check for the chosen path, \<^verbatim>\<open>path.resolve\<close> (that is, the working
  directory), the output channel, the answer of \<^verbatim>\<open>client.onReady\<close>, and the two
  values the installed error handler captures: the time of the launch and the fresh
  default error handler. Two runs that agree on these have the same outcome, whatever
  else differs (the world before the run, the other files on disk, the telemetry
  library).
\<close>

theorem launch_outcome_determined:
  assumes "acquireOutcome h1 = acquireOutcome h2"
    and "NANINOVEL_LANGUAGE_SERVER_PATH h1 = NANINOVEL_LANGUAGE_SERVER_PATH h2"
    and "asAbsolutePath c1 packagedServerPath = asAbsolutePath c2 packagedServerPath"
    and "existsSync h1 (chosenServerPath h1 c1) = existsSync h2 (chosenServerPath h2 c2)"
    and "path_resolve h1 = path_resolve h2"
    and "onReady h1 = onReady h2"
    and "now w1 = now w2"
    and "createDefaultErrorHandler h1 = createDefaultErrorHandler h2"
  shows "launchOutcome h1 c1 channel w1 = launchOutcome h2 c2 channel w2"
proof -
  from assms(2,3) have "chosenServerPath h1 c1 = chosenServerPath h2 c2"
    by (simp add: chosenServerPath_def packagedServerPath_def split: option.splits)
  with assms(1,4-8) show ?thesis
    by (simp add: launchOutcome_eq constructedClient_def split: sum.splits option.splits)
qed

lemma hostIn_acquired:
  "acquireOutcome (hostIn cwd) = Inr (Some \<lparr>dotnetPath = ''/opt/dotnet/dotnet''\<rparr>)"
  by (simp add: acquireOutcome_def hostIn_def exampleHost_def)

lemma hostIn_chosen: "chosenServerPath (hostIn cwd) c = ''server.dll''"
  by (simp add: chosenServerPath_def hostIn_def)

lemma hostIn_exists: "existsSync (hostIn cwd) = (\<lambda>p. True)"
  by (simp add: hostIn_def)

lemma hostIn_resolve: "path_resolve (hostIn cwd) = resolveIn cwd"
  by (simp add: hostIn_def)

lemma hostIn_override: "NANINOVEL_LANGUAGE_SERVER_PATH (hostIn cwd) = Some ''server.dll''"
  by (simp add: hostIn_def)

lemma hostIn_server_path:
  "map_option (\<lambda>c. args (run (serverOptions c)))
     (snd (launchOutcome (hostIn cwd) exampleContext exampleChannel exampleWorld)) =
   Some [cwd @ ''/server.dll'']"
  by (simp add: launchOutcome_eq hostIn_acquired hostIn_chosen hostIn_exists hostIn_resolve
      resolveIn_def constructedClient_def)

lemma outcome_example:
  "launchOutcome exampleHost exampleContext channel w =
     (Inr (),
      Some (constructedClient exampleHost channel ''/opt/dotnet/dotnet''
              ''/ext/server/NaninovelLanguageServer.dll'' (now w)))"
  by (simp add: launchOutcome_eq example_acquired example_chosen example_packaged
      example_resolve resolveIn_def)
    (simp add: exampleHost_def)

lemma outcome_not_ready:
  "launchOutcome hostNotReady exampleContext channel w =
     (Inl (Rejected (HostFailure ''server crashed'')),
      Some (constructedClient hostNotReady channel ''/opt/dotnet/dotnet''
              ''/ext/server/NaninovelLanguageServer.dll'' (now w)))"
  by (simp add: launchOutcome_eq acquireOutcome_def chosenServerPath_def hostNotReady_def
      exampleHost_def exampleContext_def resolveIn_def)

lemma outcome_other_handler:
  "launchOutcome hostOtherHandler exampleContext channel w =
     (Inr (),
      Some (constructedClient hostOtherHandler channel ''/opt/dotnet/dotnet''
              ''/ext/server/NaninovelLanguageServer.dll'' (now w)))"
  by (simp add: launchOutcome_eq acquireOutcome_def chosenServerPath_def hostOtherHandler_def
      exampleHost_def exampleContext_def resolveIn_def)

lemma fresh_handlers:
  "createDefaultErrorHandler exampleHost = 0"
  "createDefaultErrorHandler hostOtherHandler = 4"
  by (simp_all add: hostOtherHandler_def exampleHost_def)

text \<open>
  Agreement on the first four alone is not enough. Each pair of runs below agrees on
  them, and on everything else but one thing, and the outcomes differ:
  \<^item> another working directory resolves the relative override \<^verbatim>\<open>server.dll\<close> to another
    server path;
  \<^item> another output channel gives the client other options;
  \<^item> a server that does not become ready makes the launch throw where the other returns;
  \<^item> another time of launch is another \<^verbatim>\<open>startTime\<close> in the installed error handler;
  \<^item> another fresh default error handler is another handler inside the installed one.
\<close>

theorem launch_deterministic_counterexample:
  "acquireOutcome (hostIn ''/home/a'') = acquireOutcome (hostIn ''/home/b'')
   \<and> NANINOVEL_LANGUAGE_SERVER_PATH (hostIn ''/home/a'') =
       NANINOVEL_LANGUAGE_SERVER_PATH (hostIn ''/home/b'')
   \<and> existsSync (hostIn ''/home/a'') = existsSync (hostIn ''/home/b'')
   \<and> launchOutcome (hostIn ''/home/a'') exampleContext exampleChannel exampleWorld \<noteq>
       launchOutcome (hostIn ''/home/b'') exampleContext exampleChannel exampleWorld
   \<and> launchOutcome exampleHost exampleContext (OutputChannel ''Naninovel'') exampleWorld \<noteq>
       launchOutcome exampleHost exampleContext (OutputChannel ''Output'') exampleWorld
   \<and> acquireOutcome exampleHost = acquireOutcome hostNotReady
   \<and> NANINOVEL_LANGUAGE_SERVER_PATH exampleHost = NANINOVEL_LANGUAGE_SERVER_PATH hostNotReady
   \<and> existsSync exampleHost = existsSync hostNotReady
   \<and> launchOutcome exampleHost exampleContext exampleChannel exampleWorld \<noteq>
       launchOutcome hostNotReady exampleContext exampleChannel exampleWorld
   \<and> launchOutcome exampleHost exampleContext exampleChannel exampleWorld \<noteq>
       launchOutcome exampleHost exampleContext exampleChannel (exampleWorld\<lparr>now := 5000\<rparr>)
   \<and> acquireOutcome exampleHost = acquireOutcome hostOtherHandler
   \<and> NANINOVEL_LANGUAGE_SERVER_PATH exampleHost =
       NANINOVEL_LANGUAGE_SERVER_PATH hostOtherHandler
   \<and> existsSync exampleHost = existsSync hostOtherHandler
   \<and> launchOutcome exampleHost exampleContext exampleChannel exampleWorld \<noteq>
       launchOutcome hostOtherHandler exampleContext exampleChannel exampleWorld"
proof -
  have cwd:
    "launchOutcome (hostIn ''/home/a'') exampleContext exampleChannel exampleWorld \<noteq>
       launchOutcome (hostIn ''/home/b'') exampleContext exampleChannel exampleWorld"
    by (simp add: launchOutcome_eq hostIn_acquired hostIn_chosen hostIn_exists hostIn_resolve
        resolveIn_def constructedClient_def)
  have channel:
    "launchOutcome exampleHost exampleContext (OutputChannel ''Naninovel'') exampleWorld \<noteq>
       launchOutcome exampleHost exampleContext (OutputChannel ''Output'') exampleWorld"
    by (simp add: outcome_example constructedClient_def)
  have ready:
    "launchOutcome exampleHost exampleContext exampleChannel exampleWorld \<noteq>
       launchOutcome hostNotReady exampleContext exampleChannel exampleWorld"
    by (simp add: outcome_example outcome_not_ready)
  have clock:
    "launchOutcome exampleHost exampleContext exampleChannel exampleWorld \<noteq>
       launchOutcome exampleHost exampleContext exampleChannel (exampleWorld\<lparr>now := 5000\<rparr>)"
    by (simp add: outcome_example constructedClient_def exampleWorld_def)
  have handler:
    "launchOutcome exampleHost exampleContext exampleChannel exampleWorld \<noteq>
       launchOutcome hostOtherHandler exampleContext exampleChannel exampleWorld"
    by (simp add: outcome_example outcome_other_handler constructedClient_def
        fresh_handlers)
  have agree_cwd:
    "acquireOutcome (hostIn ''/home/a'') = acquireOutcome (hostIn ''/home/b'')"
    "NANINOVEL_LANGUAGE_SERVER_PATH (hostIn ''/home/a'') =
       NANINOVEL_LANGUAGE_SERVER_PATH (hostIn ''/home/b'')"
    "existsSync (hostIn ''/home/a'') = existsSync (hostIn ''/home/b'')"
    by (simp_all add: hostIn_acquired hostIn_override hostIn_exists)
  have agree:
    "acquireOutcome exampleHost = acquireOutcome hostNotReady"
    "NANINOVEL_LANGUAGE_SERVER_PATH exampleHost = NANINOVEL_LANGUAGE_SERVER_PATH hostNotReady"
    "existsSync exampleHost = existsSync hostNotReady"
    "acquireOutcome exampleHost = acquireOutcome hostOtherHandler"
    "NANINOVEL_LANGUAGE_SERVER_PATH exampleHost =
       NANINOVEL_LANGUAGE_SERVER_PATH hostOtherHandler"
    "existsSync exampleHost = existsSync hostOtherHandler"
    by (simp_all add: acquireOutcome_def hostNotReady_def hostOtherHandler_def)
  from agree_cwd agree cwd channel ready clock handler show ?thesis by blast
qed

theorem launch_outcome_determined_witness:
  "acquireOutcome exampleHost = acquireOutcome hostElsewhere
   \<and> NANINOVEL_LANGUAGE_SERVER_PATH exampleHost = NANINOVEL_LANGUAGE_SERVER_PATH hostElsewhere
   \<and> existsSync exampleHost (chosenServerPath exampleHost exampleContext) =
       existsSync hostElsewhere (chosenServerPath hostElsewhere exampleContext)
   \<and> path_resolve exampleHost = path_resolve hostElsewhere
   \<and> onReady exampleHost = onReady hostElsewhere
   \<and> now exampleWorld = now laterWorld
   \<and> createDefaultErrorHandler exampleHost = createDefaultErrorHandler hostElsewhere
   \<and> launchOutcome exampleHost exampleContext exampleChannel exampleWorld =
       launchOutcome hostElsewhere exampleContext exampleChannel laterWorld
   \<and> fst (launchOutcome exampleHost exampleContext exampleChannel exampleWorld) = Inr ()"
proof -
  have a: "acquireOutcome exampleHost = acquireOutcome hostElsewhere"
    by (simp add: acquireOutcome_def hostElsewhere_def)
  have b: "NANINOVEL_LANGUAGE_SERVER_PATH exampleHost =
      NANINOVEL_LANGUAGE_SERVER_PATH hostElsewhere"
    by (simp add: hostElsewhere_def)
  have c: "asAbsolutePath exampleContext packagedServerPath =
      asAbsolutePath exampleContext packagedServerPath"
    by simp
  have d: "existsSync exampleHost (chosenServerPath exampleHost exampleContext) =
      existsSync hostElsewhere (chosenServerPath hostElsewhere exampleContext)"
    by (simp add: chosenServerPath_def hostElsewhere_def exampleHost_def exampleContext_def)
  have e: "path_resolve exampleHost = path_resolve hostElsewhere"
    by (simp add: hostElsewhere_def)
  have f: "onReady exampleHost = onReady hostElsewhere"
    by (simp add: hostElsewhere_def)
  have g: "now exampleWorld = now laterWorld"
    by (simp add: exampleWorld_def laterWorld_def)
  have i: "createDefaultErrorHandler exampleHost = createDefaultErrorHandler hostElsewhere"
    by (simp add: hostElsewhere_def)
  have same:
    "launchOutcome exampleHost exampleContext exampleChannel exampleWorld =
       launchOutcome hostElsewhere exampleContext exampleChannel laterWorld"
    by (rule launch_outcome_determined [OF a b c d e f g i])
  have "fst (launchOutcome exampleHost exampleContext exampleChannel exampleWorld) = Inr ()"
    by (simp add: outcome_example)
  with a b d e f g i same show ?thesis by blast
qed

end
